theory Spec2Isabelle
  imports Main "HOL-Library.Char_ord" "HOL-Library.List_Lexorder"
begin

section \<open>Shared data model\<close>

text \<open>
  Python exceptions are values. A function of the source that can raise returns
  \<open>py_error + 'a\<close>, with \<open>Inl\<close> for the exception that leaves the function.
\<close>

datatype py_error =
    TypeError | ValueError | IndexError | KeyError | AttributeError
  | AssertionError | UnboundLocalError | ContextError | ConnectionClosed
  | ConnectionClosedOK | RequestException | InactiveRepo | NotImplementedError
  | OtherError string

text \<open>
  Decoded JSON, as \<open>json_loads\<close> returns it. A dict is an association list;
  \<open>map_of\<close> reads it.
\<close>

datatype json =
    JNull | JBool bool | JInt int | JStr string
  | JList "json list" | JDict "(string \<times> json) list"

text \<open>Python truthiness of a decoded JSON value.\<close>

fun truthy :: "json \<Rightarrow> bool" where
  "truthy JNull = False"
| "truthy (JBool b) = b"
| "truthy (JInt n) = (n \<noteq> 0)"
| "truthy (JStr s) = (s \<noteq> [])"
| "truthy (JList xs) = (xs \<noteq> [])"
| "truthy (JDict kvs) = (kvs \<noteq> [])"

text \<open>\<open>d.get(k)\<close> and \<open>d.get(k, default)\<close> on a dict.\<close>

fun py_get_default :: "json \<Rightarrow> string \<Rightarrow> json \<Rightarrow> json" where
  "py_get_default (JDict kvs) k d = (case map_of kvs k of Some v \<Rightarrow> v | None \<Rightarrow> d)"
| "py_get_default _ k d = d"

definition py_get :: "json \<Rightarrow> string \<Rightarrow> json" where
  "py_get ev k = py_get_default ev k JNull"

fun is_dict :: "json \<Rightarrow> bool" where
  "is_dict (JDict kvs) = True"
| "is_dict _ = False"

text \<open>Values a Python set can hold: lists and dicts are unhashable.\<close>

fun hashable :: "json \<Rightarrow> bool" where
  "hashable (JList xs) = False"
| "hashable (JDict kvs) = False"
| "hashable _ = True"

text \<open>\<open>v[i]\<close> for a non-negative literal index \<open>i\<close>.\<close>

fun subscript :: "json \<Rightarrow> nat \<Rightarrow> py_error + json" where
  "subscript (JList xs) i = (if i < length xs then Inr (xs ! i) else Inl IndexError)"
| "subscript (JStr s) i = (if i < length s then Inr (JStr [s ! i]) else Inl IndexError)"
| "subscript (JDict kvs) i = Inl KeyError"
| "subscript _ i = Inl TypeError"

text \<open>The values a \<open>for\<close> loop over a decoded JSON value yields.\<close>

fun py_iter :: "json \<Rightarrow> py_error + json list" where
  "py_iter (JList xs) = Inr xs"
| "py_iter (JStr s) = Inr (map (\<lambda>c. JStr [c]) s)"
| "py_iter (JDict kvs) = Inr (map (\<lambda>kv. JStr (fst kv)) kvs)"
| "py_iter _ = Inl TypeError"

text \<open>\<open>models.Target\<close>: a copy of a user or object in another protocol.\<close>

record target =
  uri :: string
  protocol :: string

section \<open>nostr_hub.py\<close>

definition KIND_DELETE :: int where
  "KIND_DELETE = 5"

definition KIND_REACTION :: int where
  "KIND_REACTION = 7"

text \<open>The keyword arguments of \<open>create_task\<close> in \<open>handle\<close>.\<close>

record task =
  queue :: string
  task_id :: string
  source_protocol :: string
  authed_as :: string
  nostr :: json
  delay :: "nat option"

text \<open>
  What \<open>handle\<close> calls outside nostr_hub.py: \<open>verify\<close>, \<open>uri_for\<close> and
  \<open>id_to_uri\<close> of granary.nostr, \<open>create_task\<close> of common.py (here: the
  exception it raises for a task, if any) and the constant \<open>DELETE_TASK_DELAY\<close>
  of protocol.py. For \<open>subscribe\<close>: \<open>DEBUG\<close>, the set \<open>Nostr.SUPPORTED_KINDS\<close>
  (not defined in nostr.py), the order in which \<open>list(...)\<close> enumerates a set of
  kinds, the successive results of \<open>secrets.token_urlsafe\<close>, the exception
  \<open>connect\<close> raises for a relay, the exception \<open>ws.send\<close> raises for the n-th
  message of the connection, and \<open>json_loads\<close>.
\<close>

record hub_env =
  verify :: "json \<Rightarrow> bool"
  uri_for :: "json \<Rightarrow> py_error + string"
  id_to_uri :: "string \<Rightarrow> json \<Rightarrow> py_error + string"
  create_task_raises :: "task \<Rightarrow> py_error option"
  DELETE_TASK_DELAY :: nat
  DEBUG :: bool
  SUPPORTED_KINDS :: "int set"
  list_of_kinds :: "int set \<Rightarrow> int list"
  token_urlsafe :: "nat \<Rightarrow> string"
  connect_raises :: "string \<Rightarrow> py_error option"
  send_raises :: "nat \<Rightarrow> py_error option"
  json_loads :: "string \<Rightarrow> py_error + json"

text \<open>
  The module globals \<open>nostr_pubkeys\<close> and \<open>bridged_pubkeys\<close>, the task queue
  that \<open>create_task\<close> fills, and the ids given to \<open>report_error\<close>.
\<close>

record hub =
  nostr_pubkeys :: "string set"
  bridged_pubkeys :: "string set"
  tasks :: "task list"
  reported :: "string list"

text \<open>The first test of \<open>handle\<close>: the event is a dict with kind, pubkey, id and sig.\<close>

definition well_formed :: "json \<Rightarrow> bool" where
  "well_formed event \<longleftrightarrow>
     is_dict event \<and> py_get event ''kind'' \<noteq> JNull \<and> truthy (py_get event ''pubkey'')
     \<and> truthy (py_get event ''id'') \<and> truthy (py_get event ''sig'')"

text \<open>
  One step of \<open>set(tag[1] for tag in ... if tag[0] == 'p')\<close>: the value the tag
  adds to the set, if any, or the exception that \<open>tag[0]\<close>, \<open>tag[1]\<close> or the
  insertion of an unhashable value raises.
\<close>

definition tag_mention :: "json \<Rightarrow> py_error + json option" where
  "tag_mention tag =
     (case subscript tag 0 of
        Inl e \<Rightarrow> Inl e
      | Inr t0 \<Rightarrow>
          if t0 = JStr ''p'' then
            (case subscript tag 1 of
               Inl e \<Rightarrow> Inl e
             | Inr t1 \<Rightarrow> if hashable t1 then Inr (Some t1) else Inl TypeError)
          else Inr None)"

fun mentions_of :: "json list \<Rightarrow> py_error + json list" where
  "mentions_of [] = Inr []"
| "mentions_of (tag # tags) =
     (case tag_mention tag of
        Inl e \<Rightarrow> Inl e
      | Inr m \<Rightarrow>
          (case mentions_of tags of
             Inl e \<Rightarrow> Inl e
           | Inr ms \<Rightarrow> Inr (case m of None \<Rightarrow> ms | Some v \<Rightarrow> v # ms)))"

text \<open>\<open>mentions & bridged_pubkeys\<close> is non-empty; the pubkeys are strings.\<close>

fun is_str_in :: "string set \<Rightarrow> json \<Rightarrow> bool" where
  "is_str_in S (JStr s) = (s \<in> S)"
| "is_str_in S _ = False"

definition mentions_bridged :: "json list \<Rightarrow> string set \<Rightarrow> bool" where
  "mentions_bridged ms S = list_ex (is_str_in S) ms"

text \<open>\<open>pubkey in nostr_pubkeys\<close>: hashing a list or a dict raises.\<close>

definition in_pubkeys :: "json \<Rightarrow> string set \<Rightarrow> py_error + bool" where
  "in_pubkeys v S = (if hashable v then Inr (is_str_in S v) else Inl TypeError)"

definition receive_task :: "hub_env \<Rightarrow> json \<Rightarrow> string \<Rightarrow> string \<Rightarrow> task" where
  "receive_task env event obj_id npub_uri =
     \<lparr>queue = ''receive'', task_id = obj_id, source_protocol = ''nostr'',
      authed_as = npub_uri, nostr = event,
      delay = (if py_get event ''kind'' = JInt KIND_DELETE
               then Some (DELETE_TASK_DELAY env) else None)\<rparr>"

text \<open>
  The \<open>try\<close> around \<open>create_task\<close>: a \<open>ContextError\<close> is raised again, any
  other exception is reported and swallowed.
\<close>

definition enqueue :: "hub_env \<Rightarrow> hub \<Rightarrow> task \<Rightarrow> py_error + hub" where
  "enqueue env h t =
     (case create_task_raises env t of
        None \<Rightarrow> Inr (h\<lparr>tasks := tasks h @ [t]\<rparr>)
      | Some e \<Rightarrow>
          if e = ContextError then Inl ContextError
          else Inr (h\<lparr>reported := reported h @ [task_id t]\<rparr>))"

text \<open>
  The \<open>try\<close> around \<open>uri_for\<close> and \<open>id_to_uri\<close>: \<open>TypeError\<close> and
  \<open>ValueError\<close> end \<open>handle\<close> quietly, anything else propagates.
\<close>

definition event_ids :: "hub_env \<Rightarrow> json \<Rightarrow> py_error + (string \<times> string) option" where
  "event_ids env event =
     (case uri_for env event of
        Inl e \<Rightarrow> if e = TypeError \<or> e = ValueError then Inr None else Inl e
      | Inr obj_id \<Rightarrow>
          (case id_to_uri env ''npub'' (py_get event ''pubkey'') of
             Inl e \<Rightarrow> if e = TypeError \<or> e = ValueError then Inr None else Inl e
           | Inr npub_uri \<Rightarrow> Inr (Some (obj_id, npub_uri))))"

text \<open>
  The relevance test of \<open>handle\<close>: the event is from a bridged Nostr user, or
  one of its p tags mentions a user bridged into Nostr.
\<close>

definition relevant :: "hub \<Rightarrow> json \<Rightarrow> py_error + bool" where
  "relevant h event =
     (case py_iter (py_get_default event ''tags'' (JList [])) of
        Inl e \<Rightarrow> Inl e
      | Inr tags \<Rightarrow>
          (case mentions_of tags of
             Inl e \<Rightarrow> Inl e
           | Inr mentions \<Rightarrow>
               (case in_pubkeys (py_get event ''pubkey'') (nostr_pubkeys h) of
                  Inl e \<Rightarrow> Inl e
                | Inr from_native \<Rightarrow>
                    Inr (from_native \<or> mentions_bridged mentions (bridged_pubkeys h)))))"

definition handle :: "hub_env \<Rightarrow> hub \<Rightarrow> json \<Rightarrow> py_error + hub" where
  "handle env h event =
     (if \<not> well_formed event then Inr h
      else (case relevant h event of
        Inl e \<Rightarrow> Inl e
      | Inr rel \<Rightarrow>
          if \<not> rel then Inr h
          else if \<not> verify env event then Inr h
          else (case event_ids env event of
            Inl e \<Rightarrow> Inl e
          | Inr None \<Rightarrow> Inr h
          | Inr (Some ids) \<Rightarrow>
              enqueue env h (receive_task env event (fst ids) (snd ids)))))"

text \<open>
  What reaches the subscriber thread, in order: the loader thread has added users
  to the two global sets (\<open>_load_users\<close>), \<open>ws.recv\<close> timed out, \<open>ws.recv\<close>
  raised, or \<open>ws.recv\<close> returned a text frame.
\<close>

datatype incoming =
    LoadUsers "string set" "string set"
  | RecvTimeout
  | RecvRaises py_error
  | RecvText string

text \<open>
  The locals of \<open>subscribe\<close> with the globals it reads, and the messages given
  to \<open>ws.send\<close> (the values that \<open>json_dumps\<close> serialises).
\<close>

record subscriber =
  hub_state :: hub
  sent :: "json list"
  tokens_drawn :: nat
  subscription :: string
  nostr_pubkeys_count :: nat
  bridged_pubkeys_count :: nat
  received :: nat

datatype outcome = Returned | Raised py_error | Waiting

datatype step = Raises py_error | Break | Counted

definition AUTHOR_FILTER_KINDS :: "hub_env \<Rightarrow> int list" where
  "AUTHOR_FILTER_KINDS env = list_of_kinds env (SUPPORTED_KINDS env - {KIND_REACTION})"

definition mention_filter :: "hub_env \<Rightarrow> string set \<Rightarrow> json" where
  "mention_filter env bridged =
     JDict [(''#p'', JList (map JStr (sorted_list_of_set bridged))),
            (''kinds'', JList (map JInt (list_of_kinds env (SUPPORTED_KINDS env))))]"

definition author_filter :: "hub_env \<Rightarrow> string set \<Rightarrow> json" where
  "author_filter env native =
     JDict [(''authors'', JList (map JStr (sorted_list_of_set native))),
            (''kinds'', JList (map JInt (AUTHOR_FILTER_KINDS env)))]"

definition req :: "hub_env \<Rightarrow> string \<Rightarrow> string set \<Rightarrow> string set \<Rightarrow> json" where
  "req env sub bridged native =
     JList [JStr ''REQ'', JStr sub, mention_filter env bridged, author_filter env native]"

definition ws_send :: "hub_env \<Rightarrow> subscriber \<Rightarrow> json \<Rightarrow> py_error option \<times> subscriber" where
  "ws_send env s m =
     (case send_raises env (length (sent s)) of
        Some e \<Rightarrow> (Some e, s)
      | None \<Rightarrow> (None, s\<lparr>sent := sent s @ [m]\<rparr>))"

text \<open>
  The head of the outer \<open>while True\<close> of \<open>subscribe\<close>: record the sizes of the
  two sets, reset \<open>received\<close>, draw a subscription id and send the REQ.
\<close>

definition send_req :: "hub_env \<Rightarrow> subscriber \<Rightarrow> py_error option \<times> subscriber" where
  "send_req env s =
     (let tok = token_urlsafe env (tokens_drawn s) in
      ws_send env
        (s\<lparr>nostr_pubkeys_count := card (nostr_pubkeys (hub_state s)),
           bridged_pubkeys_count := card (bridged_pubkeys (hub_state s)),
           received := 0,
           subscription := tok,
           tokens_drawn := Suc (tokens_drawn s)\<rparr>)
        (req env tok (bridged_pubkeys (hub_state s)) (nostr_pubkeys (hub_state s))))"

text \<open>
  The head of the inner loop: when either set has changed size, send CLOSE, leave
  the inner loop and send a new REQ.
\<close>

definition requery :: "hub_env \<Rightarrow> subscriber \<Rightarrow> py_error option \<times> subscriber" where
  "requery env s =
     (if nostr_pubkeys_count s \<noteq> card (nostr_pubkeys (hub_state s))
         \<or> bridged_pubkeys_count s \<noteq> card (bridged_pubkeys (hub_state s))
      then (case ws_send env s (JList [JStr ''CLOSE'', JStr (subscription s)]) of
              (Some e, s') \<Rightarrow> (Some e, s')
            | (None, s') \<Rightarrow> send_req env s')
      else (None, s))"

text \<open>\<open>json_loads\<close> and the \<open>match resp[0]\<close> statement.\<close>

definition dispatch :: "hub_env \<Rightarrow> subscriber \<Rightarrow> string \<Rightarrow> step \<times> subscriber" where
  "dispatch env s msg =
     (case json_loads env msg of
        Inl e \<Rightarrow> (Raises e, s)
      | Inr resp \<Rightarrow>
          (case subscript resp 0 of
             Inl e \<Rightarrow> (Raises e, s)
           | Inr r0 \<Rightarrow>
               if r0 = JStr ''EVENT'' then
                 (case subscript resp 2 of
                    Inl e \<Rightarrow> (Raises e, s)
                  | Inr event \<Rightarrow>
                      (case handle env (hub_state s) event of
                         Inl e \<Rightarrow> (Raises e, s)
                       | Inr h \<Rightarrow> (Counted, s\<lparr>hub_state := h\<rparr>)))
               else if r0 = JStr ''CLOSED'' then (Break, s)
               else (Counted, s)))"

definition load_users :: "string set \<Rightarrow> string set \<Rightarrow> subscriber \<Rightarrow> subscriber" where
  "load_users new_nostr new_bridged s =
     s\<lparr>hub_state := (hub_state s)
          \<lparr>nostr_pubkeys := nostr_pubkeys (hub_state s) \<union> new_nostr,
           bridged_pubkeys := bridged_pubkeys (hub_state s) \<union> new_bridged\<rparr>\<rparr>"

definition limit_reached :: "int option \<Rightarrow> nat \<Rightarrow> bool" where
  "limit_reached limit n = (case limit of None \<Rightarrow> False | Some l \<Rightarrow> l \<noteq> 0 \<and> l \<le> int n)"

text \<open>
  The two nested loops of \<open>subscribe\<close>, run on what arrives. When nothing more
  arrives the subscriber is blocked in \<open>ws.recv\<close>: \<open>Waiting\<close>.
\<close>

fun receive_loop :: "hub_env \<Rightarrow> int option \<Rightarrow> incoming list \<Rightarrow> subscriber \<Rightarrow> outcome \<times> subscriber" where
  "receive_loop env limit [] s = (Waiting, s)"
| "receive_loop env limit (LoadUsers n b # ins) s =
     receive_loop env limit ins (load_users n b s)"
| "receive_loop env limit (RecvTimeout # ins) s =
     (case requery env s of
        (Some e, s') \<Rightarrow> (Raised e, s')
      | (None, s') \<Rightarrow> receive_loop env limit ins s')"
| "receive_loop env limit (RecvRaises err # ins) s =
     (case requery env s of
        (Some e, s') \<Rightarrow> (Raised e, s')
      | (None, s') \<Rightarrow> (Raised err, s'))"
| "receive_loop env limit (RecvText msg # ins) s =
     (case requery env s of
        (Some e, s') \<Rightarrow> (Raised e, s')
      | (None, s') \<Rightarrow>
          (case dispatch env s' msg of
             (Raises e, s'') \<Rightarrow> (Raised e, s'')
           | (Break, s'') \<Rightarrow>
               (case send_req env s'' of
                  (Some e, s3) \<Rightarrow> (Raised e, s3)
                | (None, s3) \<Rightarrow> receive_loop env limit ins s3)
           | (Counted, s'') \<Rightarrow>
               (let s3 = s''\<lparr>received := Suc (received s'')\<rparr> in
                if limit_reached limit (received s3) then (Returned, s3)
                else receive_loop env limit ins s3)))"

definition connected :: "hub \<Rightarrow> subscriber" where
  "connected h =
     \<lparr>hub_state = h, sent = [], tokens_drawn = 0, subscription = [],
      nostr_pubkeys_count = 0, bridged_pubkeys_count = 0, received = 0\<rparr>"

definition subscribe :: "hub_env \<Rightarrow> string \<Rightarrow> int option \<Rightarrow> incoming list \<Rightarrow> hub \<Rightarrow> outcome \<times> subscriber" where
  "subscribe env relay limit ins h =
     (if \<not> DEBUG env \<and> limit \<noteq> None then (Raised AssertionError, connected h)
      else (case connect_raises env relay of
        Some e \<Rightarrow> (Raised e, connected h)
      | None \<Rightarrow>
          (case send_req env (connected h) of
             (Some e, s) \<Rightarrow> (Raised e, s)
           | (None, s) \<Rightarrow> receive_loop env limit ins s)))"





subsection \<open>A test double for the hub\<close>

text \<open>
  Stand-ins for the libraries, in the manner of the test suite's \<open>FakeConnection\<close>:
  a signature is good when it is the string \<open>good\<close>, ids are made by prefixing,
  and the relay serves two named frames.
\<close>

definition example_event :: json where
  "example_event =
     JDict [(''id'', JStr ''e0''), (''pubkey'', JStr ''b0b''), (''kind'', JInt 1),
            (''created_at'', JInt 678), (''tags'', JList []),
            (''content'', JStr ''Hello''), (''sig'', JStr ''good'')]"

definition example_frames :: "string \<Rightarrow> py_error + json" where
  "example_frames msg =
     (if msg = ''event'' then Inr (JList [JStr ''EVENT'', JStr ''s'', example_event])
      else if msg = ''closed'' then Inr (JList [JStr ''CLOSED'', JStr ''s'', JStr ''bye''])
      else Inl ValueError)"

definition example_env :: hub_env where
  "example_env =
     \<lparr>verify = (\<lambda>ev. py_get ev ''sig'' = JStr ''good''),
      uri_for = (\<lambda>ev. case py_get ev ''id'' of JStr i \<Rightarrow> Inr (''nostr:note'' @ i) | _ \<Rightarrow> Inl TypeError),
      id_to_uri = (\<lambda>prefix v. case v of JStr i \<Rightarrow> Inr (''nostr:'' @ prefix @ i) | _ \<Rightarrow> Inl TypeError),
      create_task_raises = (\<lambda>t. None),
      DELETE_TASK_DELAY = 120,
      DEBUG = True,
      SUPPORTED_KINDS = {0, 1, 5, 7},
      list_of_kinds = sorted_list_of_set,
      token_urlsafe = (\<lambda>n. replicate (Suc n) CHR ''s''),
      connect_raises = (\<lambda>relay. None),
      send_raises = (\<lambda>n. None),
      json_loads = example_frames\<rparr>"

definition example_hub :: hub where
  "example_hub = \<lparr>nostr_pubkeys = {''b0b''}, bridged_pubkeys = {''a11ce''}, tasks = [], reported = []\<rparr>"

definition loopback_event :: json where
  "loopback_event =
     JDict [(''id'', JStr ''e1''), (''pubkey'', JStr ''a11ce''), (''kind'', JInt 1),
            (''tags'', JList [JList [JStr ''p'', JStr ''a11ce'']]),
            (''content'', JStr ''hi''), (''sig'', JStr ''good'')]"

section \<open>models.py: the parts the protocols use\<close>

text \<open>
  An AS1 dict, seen through the accessors the code applies to it:
  \<open>.get('objectType')\<close>, \<open>.get('verb')\<close>, \<open>.get('id')\<close>,
  \<open>as1.object_type\<close>, a truthy \<open>monetization\<close>, the id of the first
  \<open>featured\<close> item, \<open>as1.recipient_if_dm\<close> and \<open>as1.get_object\<close>
  (\<open>None\<close> stands for the empty dict that \<open>get_object\<close> returns when there
  is no inner object).
\<close>

datatype as1 = AS1
  (objectType: "string option")
  (verb: "string option")
  (as1_id: "string option")
  (object_type: "string option")
  (monetization: bool)
  (featured_id: "string option")
  (recipient_if_dm: "string option")
  (inner: "as1 option")

definition empty_as1 :: as1 where
  "empty_as1 = AS1 None None None None False None None None"

definition get_object :: "as1 \<Rightarrow> as1" where
  "get_object a = (case inner a of None \<Rightarrow> empty_as1 | Some b \<Rightarrow> b)"

text \<open>
  \<open>models.Object\<close>: the key id (absent for an \<open>Object\<close> built without an
  id), the copies, the AS1 form (absent when it is \<open>None\<close> or empty) and the
  source protocol.
\<close>

record object =
  key_id :: "string option"
  copies :: "target list"
  as1 :: "as1 option"
  obj_source_protocol :: "string option"

text \<open>
  \<open>models.User\<close>: the label of its protocol class, the key id, the copies, the
  profile object, and the two indexed handle properties.
\<close>

record user =
  user_label :: string
  user_id :: string
  user_copies :: "target list"
  user_obj :: "object option"
  user_handle :: "string option"
  handle_as_domain :: "string option"

text \<open>
  Modelled from the spec: \<open>add\<close> of models.py, which is not under src/. The
  spec's data model makes \<open>copies\<close> a set of Targets: a Target is appended
  unless the list already holds it.
\<close>

definition add_copy :: "target list \<Rightarrow> target \<Rightarrow> target list" where
  "add_copy cs t = (if t \<in> set cs then cs else cs @ [t])"

text \<open>
  Modelled from the spec: \<open>get_copy\<close> of models.py, which is not under src/.
  A copy binds a user or object to its counterpart in another protocol: the uri of
  the first copy whose protocol is the label or the abbreviation of the protocol
  asked for; a user of the protocol itself is its own copy.
\<close>

record proto =
  LABEL :: string
  ABBREV :: string

definition get_copy :: "proto \<Rightarrow> target list \<Rightarrow> string option" where
  "get_copy p cs =
     (case filter (\<lambda>c. protocol c = LABEL p \<or> protocol c = ABBREV p) cs of
        [] \<Rightarrow> None
      | c # _ \<Rightarrow> Some (uri c))"

definition user_get_copy :: "proto \<Rightarrow> user \<Rightarrow> string option" where
  "user_get_copy p u =
     (if user_label u = LABEL p then Some (user_id u) else get_copy p (user_copies u))"

text \<open>Python truthiness of an optional string: neither \<open>None\<close> nor empty.\<close>

fun truthy_str :: "string option \<Rightarrow> bool" where
  "truthy_str None = False"
| "truthy_str (Some s) = (s \<noteq> [])"

text \<open>
  The datastore of Objects. \<open>put\<close> stores an object under its key id; the key
  of a \<open>StringIdModel\<close> must have a string id.
\<close>

type_synonym store = "string \<rightharpoonup> object"

definition put :: "store \<Rightarrow> object \<Rightarrow> py_error + store" where
  "put st obj =
     (case key_id obj of None \<Rightarrow> Inl AssertionError | Some k \<Rightarrow> Inr (st(k \<mapsto> obj)))"

section \<open>nostr.py\<close>

text \<open>
  The two protocol classes. \<open>ABBREV\<close> is in the source; \<open>LABEL\<close> is set
  for each protocol class in models.py: the copies in tests/test_nostr.py carry
  \<open>'nostr'\<close>, those that atproto.py writes \<open>'atproto'\<close>.
\<close>

definition Nostr :: proto where
  "Nostr = \<lparr>LABEL = ''nostr'', ABBREV = ''nostr''\<rparr>"

definition ATProto :: proto where
  "ATProto = \<lparr>LABEL = ''atproto'', ABBREV = ''bsky''\<rparr>"





subsection \<open>The NIP-05 endpoint\<close>

datatype response = Names string string | NotFound | BadRequest

text \<open>
  A request: the \<open>name\<close> query parameter and the protocol that
  \<open>Protocol.for_request\<close> finds for the request's host, by label.
\<close>

record request =
  name_param :: "string option"
  for_request :: "string option"

text \<open>
  What \<open>nip_05\<close> reads: the stored users of a protocol, in the order the query
  returns them, \<open>is_enabled\<close> of models.py and \<open>uri_to_id\<close> of granary.nostr.
\<close>

record nip05_env =
  users_of :: "string \<Rightarrow> user list"
  is_enabled :: "user \<Rightarrow> string \<Rightarrow> bool"
  uri_to_id :: "string \<Rightarrow> string"

text \<open>
  \<open>get_required_param\<close> of webutil answers 400 when the parameter is missing or
  empty (tests/test_nostr.py, \<open>test_nip_05_missing_name_param\<close>).
\<close>

definition get_required_param :: "string option \<Rightarrow> response + string" where
  "get_required_param v =
     (case v of None \<Rightarrow> Inl BadRequest | Some s \<Rightarrow> if s = [] then Inl BadRequest else Inr s)"

text \<open>The filter of the query: handle, \<open>handle_as_domain\<close> or key id is the name.\<close>

definition name_matches :: "string \<Rightarrow> user \<Rightarrow> bool" where
  "name_matches name u \<longleftrightarrow>
     user_handle u = Some name \<or> handle_as_domain u = Some name \<or> user_id u = name"

definition nip_05 :: "nip05_env \<Rightarrow> request \<Rightarrow> response" where
  "nip_05 env rq =
     (case get_required_param (name_param rq) of
        Inl r \<Rightarrow> r
      | Inr name \<Rightarrow>
          (case for_request rq of
             None \<Rightarrow> NotFound
           | Some proto \<Rightarrow>
               if proto = LABEL Nostr then NotFound
               else (case find (name_matches name) (users_of env proto) of
                  None \<Rightarrow> NotFound
                | Some u \<Rightarrow>
                    if \<not> is_enabled env u (LABEL Nostr) then NotFound
                    else (case user_get_copy Nostr u of
                       None \<Rightarrow> NotFound
                     | Some npub \<Rightarrow>
                         if npub = [] then NotFound
                         else Names name (uri_to_id env npub)))))"

section \<open>atproto.py\<close>

subsection \<open>The storage and the services around it\<close>

text \<open>
  An arroba repo as atproto.py reads it: its DID, its status (absent or empty when
  the repo is active) and its handle.
\<close>

record repo =
  repo_did :: string
  repo_status :: "string option"
  repo_handle :: "string option"

definition TOMBSTONED :: string where
  "TOMBSTONED = ''tombstoned''"

datatype action = CREATE | UPDATE | DELETE

text \<open>
  A converted record (a lexicon dict): its \<open>$type\<close>, if it has one, and the
  rest of it.
\<close>

record lex =
  lex_type :: "string option"
  lex_body :: string

record repo_write =
  w_action :: action
  w_collection :: "string option"
  w_rkey :: "string option"
  w_record :: "lex option"

text \<open>
  Everything atproto.py changes: the repos of the storage, the stored Objects and
  Users, the DIDs registered at the PLC directory, the DNS TXT records with the
  number of change sets submitted, the queues given to \<open>create_task\<close>, and the
  commits made, each with the DID of its repo.
\<close>

record world =
  repos :: "string \<rightharpoonup> repo"
  objects :: store
  users :: "string \<rightharpoonup> user"
  plc_ops :: "string list"
  dns :: "string \<rightharpoonup> string"
  dns_changes :: nat
  queued :: "string list"
  commits :: "(string \<times> repo_write list) list"

text \<open>
  What atproto.py calls outside itself. Constants: \<open>DEBUG\<close>, \<open>SUPERDOMAIN\<close>,
  \<open>DOMAINS\<close>, the keys of \<open>PROTOCOLS\<close>, \<open>as1.CRUD_VERBS\<close>,
  \<open>as1.ACTOR_TYPES\<close>, the lexicon types of \<open>LEXICONS\<close>. Functions, each
  either a result or the exception raised: \<open>user.handle_as('atproto')\<close>,
  \<open>did.create_plc\<close> (the new DID), \<open>Object.get_or_create\<close> for the DID
  document, the DNS API, \<open>user.reload_profile\<close> (the profile object the user
  has afterwards), \<open>Repo.create\<close>, \<open>activate_repo\<close>, \<open>deactivate_repo\<close>,
  \<open>user.load\<close>, \<open>convert\<close>, \<open>next_tid\<close>, \<open>storage.commit\<close>,
  \<open>domain_from_link\<close>, \<open>Protocol.key_for\<close>, the Follower query (the key of the
  follow activity of the Follower found), \<open>actor_key\<close>, \<open>get_or_create\<close>,
  \<open>pds_for\<close> of the loaded DID document, \<open>ids.translate_user_id\<close>, the
  moderation and chat services, \<open>list_records\<close> for block records (uri and
  subject of each) and \<open>parse_at_uri\<close>.
\<close>

record atp_env =
  atp_DEBUG :: bool
  SUPERDOMAIN :: string
  DOMAINS :: "string set"
  PROTOCOLS :: "string option \<Rightarrow> bool"
  CRUD_VERBS :: "string set"
  ACTOR_TYPES :: "string set"
  LEXICONS :: "string \<rightharpoonup> string"
  handle_as :: "user \<Rightarrow> py_error + string"
  create_plc :: "string \<Rightarrow> user \<Rightarrow> py_error + string"
  did_doc_raises :: "string \<Rightarrow> py_error option"
  reserved_handle_domain :: "string \<Rightarrow> bool"
  dns_api_raises :: "string \<Rightarrow> py_error option"
  reload_profile :: "user \<Rightarrow> py_error + object option"
  repo_create_raises :: "string \<Rightarrow> py_error option"
  activate_raises :: "string \<Rightarrow> py_error option"
  deactivate_raises :: "string \<Rightarrow> py_error option"
  user_load :: "user \<Rightarrow> string \<Rightarrow> py_error + object option"
  convert :: "object option \<Rightarrow> user option \<Rightarrow> py_error + lex option"
  next_tid :: "world \<Rightarrow> string"
  commit_raises :: "world \<Rightarrow> string \<Rightarrow> repo_write list \<Rightarrow> py_error option"
  domain_from_link :: "string \<Rightarrow> string option"
  key_for :: "string \<Rightarrow> string option"
  follower_follow :: "user \<Rightarrow> string \<Rightarrow> string option option"
  actor_key :: "object \<Rightarrow> bool \<Rightarrow> string option"
  get_or_create :: "string \<Rightarrow> bool \<Rightarrow> py_error + user option"
  pds_for_did :: "string \<Rightarrow> py_error + string option"
  translate_user_id :: "string option \<Rightarrow> string option \<Rightarrow> py_error + string option"
  mod_service_raises :: "lex \<Rightarrow> py_error option"
  chat_service :: "lex \<Rightarrow> string \<Rightarrow> py_error + bool"
  list_block_records :: "world \<Rightarrow> string \<Rightarrow> py_error + (string \<times> string) list"
  parse_at_uri :: "string \<Rightarrow> py_error + (string \<times> string option \<times> string option)"



definition endswith :: "string \<Rightarrow> string \<Rightarrow> bool" where
  "endswith s p \<longleftrightarrow> drop (length s - length p) s = p \<and> length p \<le> length s"



text \<open>
  \<open>storage.commit\<close>: either it raises and nothing is written, or the writes are
  committed and the repo's callback enqueues an \<open>atproto-commit\<close> task.
\<close>

definition commit :: "atp_env \<Rightarrow> world \<Rightarrow> string \<Rightarrow> repo_write list \<Rightarrow> py_error + world" where
  "commit env w did ws =
     (case commit_raises env w did ws of
        Some e \<Rightarrow> Inl e
      | None \<Rightarrow>
          Inr (w\<lparr>commits := commits w @ [(did, ws)],
                 queued := queued w @ [''atproto-commit'']\<rparr>))"

definition put_object :: "world \<Rightarrow> object \<Rightarrow> py_error + world" where
  "put_object w obj =
     (case put (objects w) obj of Inl e \<Rightarrow> Inl e | Inr st \<Rightarrow> Inr (w\<lparr>objects := st\<rparr>))"

subsection \<open>DNS records\<close>

definition remove_dns :: "atp_env \<Rightarrow> world \<Rightarrow> string \<Rightarrow> py_error + world" where
  "remove_dns env w hdl =
     (if atp_DEBUG env then Inr w
      else (case dns_api_raises env hdl of
        Some e \<Rightarrow> Inl e
      | None \<Rightarrow>
          (case dns w hdl of
             None \<Rightarrow> Inr w
           | Some d \<Rightarrow>
               Inr (w\<lparr>dns := (dns w)(hdl := None),
                      dns_changes := Suc (dns_changes w)\<rparr>))))"

definition set_dns :: "atp_env \<Rightarrow> world \<Rightarrow> string \<Rightarrow> string \<Rightarrow> py_error + world" where
  "set_dns env w hdl did =
     (if atp_DEBUG env then Inr w
      else if reserved_handle_domain env hdl then Inr w
      else (case remove_dns env w hdl of
        Inl e \<Rightarrow> Inl e
      | Inr w1 \<Rightarrow>
          (case dns_api_raises env hdl of
             Some e \<Rightarrow> Inl e
           | None \<Rightarrow>
               Inr (w1\<lparr>dns := (dns w1)(hdl \<mapsto> did),
                       dns_changes := Suc (dns_changes w1)\<rparr>))))"

subsection \<open>derived_writes\<close>

definition derived_action :: "as1 \<Rightarrow> action option" where
  "derived_action a =
     (if objectType a \<noteq> Some ''activity'' \<or> verb a = Some ''post'' then Some CREATE
      else if verb a = Some ''update'' then Some UPDATE
      else if verb a = Some ''delete'' \<or> verb a = Some ''undo'' then Some DELETE
      else None)"

definition in_opt :: "string option \<Rightarrow> string set \<Rightarrow> bool" where
  "in_opt v S = (case v of None \<Rightarrow> False | Some s \<Rightarrow> s \<in> S)"

definition derived_writes :: "atp_env \<Rightarrow> object \<Rightarrow> repo_write list" where
  "derived_writes env obj =
     (case as1 obj of
        None \<Rightarrow> []
      | Some a \<Rightarrow>
          (let act = derived_action a;
               obj_as1 = (if in_opt (verb a) (CRUD_VERBS env) then get_object a else a)
           in if (act = Some CREATE \<or> act = Some UPDATE)
                 \<and> in_opt (objectType obj_as1) (ACTOR_TYPES env) \<and> monetization obj_as1
              then [\<lparr>w_action = the act,
                     w_collection = Some ''community.lexicon.payments.webMonetization'',
                     w_rkey = Some ''self'',
                     w_record = Some \<lparr>lex_type =
                         Some ''community.lexicon.payments.webMonetization'',
                       lex_body = ''http://wal/let''\<rparr>\<rparr>]
              else []))"

subsection \<open>ATProto.create_for\<close>

text \<open>
  Every step returns the user and the world as they are when it ends, also when it
  ends in an exception: the user object is mutated in place and earlier writes stay.
\<close>

definition has_profile :: "user \<Rightarrow> bool" where
  "has_profile u = (case user_obj u of None \<Rightarrow> False | Some ob \<Rightarrow> as1 ob \<noteq> None)"

text \<open>
  \<open>if not user.obj or not user.obj.as1: user.reload_profile()\<close>. The profile
  object that the user has afterwards comes from the environment; as
  \<open>Nostr.reload_profile\<close> does, a reload that does not raise stores the profile
  object and then the user.
\<close>

definition fetch_profile :: "atp_env \<Rightarrow> world \<Rightarrow> user \<Rightarrow> py_error + user \<times> world" where
  "fetch_profile env w u =
     (if has_profile u then Inr (u, w)
      else (case reload_profile env u of
        Inl e \<Rightarrow> Inl e
      | Inr ob \<Rightarrow>
          (let u' = u\<lparr>user_obj := ob\<rparr>;
               w1 = (case ob of
                       None \<Rightarrow> w
                     | Some p \<Rightarrow>
                         (case key_id p of
                            None \<Rightarrow> w
                          | Some k \<Rightarrow> w\<lparr>objects := (objects w)(k \<mapsto> p)\<rparr>))
           in Inr (u', w1\<lparr>users := (users w1)(user_id u' \<mapsto> u')\<rparr>))))"

definition chat_declaration :: repo_write where
  "chat_declaration =
     \<lparr>w_action = CREATE, w_collection = Some ''chat.bsky.actor.declaration'',
      w_rkey = Some ''self'',
      w_record = Some \<lparr>lex_type = Some ''chat.bsky.actor.declaration'',
                        lex_body = ''allowIncoming: none''\<rparr>\<rparr>"

text \<open>
  The pinned post: when the profile has a featured item that loads and converts,
  a write for it, and the copy recorded on the featured object.
\<close>

definition pinned_post ::
  "atp_env \<Rightarrow> world \<Rightarrow> user \<Rightarrow> string \<Rightarrow> (py_error + repo_write list) \<times> world" where
  "pinned_post env w u did =
     (case user_obj u of
        None \<Rightarrow> (Inr [], w)
      | Some ob \<Rightarrow>
          (case as1 ob of
             None \<Rightarrow> (Inr [], w)
           | Some a \<Rightarrow>
               if \<not> truthy_str (featured_id a) then (Inr [], w)
               else (case user_load env u (the (featured_id a)) of
                  Inl e \<Rightarrow> (Inl e, w)
                | Inr None \<Rightarrow> (Inr [], w)
                | Inr (Some featured_obj) \<Rightarrow>
                    (case convert env (Some featured_obj) (Some u) of
                       Inl e \<Rightarrow> (Inl e, w)
                     | Inr None \<Rightarrow> (Inr [], w)
                     | Inr (Some post) \<Rightarrow>
                         (let rkey = next_tid env w;
                              u' = ''at://'' @ did @ ''/app.bsky.feed.post/'' @ rkey;
                              fo = featured_obj\<lparr>copies := add_copy (copies featured_obj)
                                     \<lparr>uri = u', protocol = LABEL ATProto\<rparr>\<rparr>
                          in case put_object w fo of
                               Inl e \<Rightarrow> (Inl e, w)
                             | Inr w' \<Rightarrow>
                                 (Inr [\<lparr>w_action = CREATE,
                                        w_collection = Some ''app.bsky.feed.post'',
                                        w_rkey = Some rkey, w_record = Some post\<rparr>], w'))))))"

text \<open>
  The second commit: the profile record with its derived writes, then the copy on
  the profile object.
\<close>

definition store_profile ::
  "atp_env \<Rightarrow> world \<Rightarrow> user \<Rightarrow> string \<Rightarrow> (py_error + unit) \<times> user \<times> world" where
  "store_profile env w u did =
     (case user_obj u of
        None \<Rightarrow> (Inr (), u, w)
      | Some ob \<Rightarrow>
          (case as1 ob of
             None \<Rightarrow> (Inr (), u, w)
           | Some a \<Rightarrow>
               (case convert env (Some ob) (Some u) of
                  Inl e \<Rightarrow> (Inl e, u, w)
                | Inr None \<Rightarrow> (Inl ValueError, u, w)
                | Inr (Some profile) \<Rightarrow>
                    (case commit env w did
                            (\<lparr>w_action = CREATE,
                              w_collection = Some ''app.bsky.actor.profile'',
                              w_rkey = Some ''self'', w_record = Some profile\<rparr>
                             # derived_writes env ob) of
                       Inl e \<Rightarrow> (Inl e, u, w)
                     | Inr w1 \<Rightarrow>
                         (let ob' = ob\<lparr>copies := add_copy (copies ob)
                                \<lparr>uri = ''at://'' @ did @ ''/app.bsky.actor.profile/self'',
                                 protocol = ''atproto''\<rparr>\<rparr>;
                              u1 = u\<lparr>user_obj := Some ob'\<rparr>
                          in case put_object w1 ob' of
                               Inl e \<Rightarrow> (Inl e, u1, w1)
                             | Inr w2 \<Rightarrow> (Inr (), u1, w2))))))"

text \<open>The last two statements: add the DID to the user's copies and store the user.\<close>

definition add_did_copy :: "world \<Rightarrow> user \<Rightarrow> string \<Rightarrow> user \<times> world" where
  "add_did_copy w u did =
     (let u' = u\<lparr>user_copies := add_copy (user_copies u) \<lparr>uri = did, protocol = ''atproto''\<rparr>\<rparr>
      in (u', w\<lparr>users := (users w)(user_id u' \<mapsto> u')\<rparr>))"

text \<open>
  The repo part of the new-DID path, once the DID exists: \<open>Repo.create\<close>, the
  first commit with the chat declaration and the pinned post, the profile commit,
  and at the very end the copy on the user.
\<close>

definition create_repo ::
  "atp_env \<Rightarrow> world \<Rightarrow> user \<Rightarrow> string \<Rightarrow> string \<Rightarrow> (py_error + unit) \<times> user \<times> world" where
  "create_repo env w u hdl did =
     (case repo_create_raises env did of
        Some e \<Rightarrow> (Inl e, u, w)
      | None \<Rightarrow>
          (let w1 = w\<lparr>repos := (repos w)(did \<mapsto>
                      \<lparr>repo_did = did, repo_status = None, repo_handle = Some hdl\<rparr>)\<rparr>
           in case pinned_post env w1 u did of
                (Inl e, w2) \<Rightarrow> (Inl e, u, w2)
              | (Inr pinned, w2) \<Rightarrow>
                  (case commit env w2 did (chat_declaration # pinned) of
                     Inl e \<Rightarrow> (Inl e, u, w2)
                   | Inr w3 \<Rightarrow>
                       (case store_profile env w3 u did of
                          (Inl e, u1, w4) \<Rightarrow> (Inl e, u1, w4)
                        | (Inr x, u1, w4) \<Rightarrow>
                            (case add_did_copy w4 u1 did of
                               (u2, w5) \<Rightarrow> (Inr (), u2, w5))))))"

text \<open>
  The new-DID path, from \<open>did.create_plc\<close> on: the PLC operation, the stored
  DID document, the DNS record, the profile fetch, then the repo.
\<close>

definition did_doc_object :: "string \<Rightarrow> object" where
  "did_doc_object did =
     \<lparr>key_id = Some did, copies = [], as1 = None, obj_source_protocol = None\<rparr>"

definition create_new_did ::
  "atp_env \<Rightarrow> world \<Rightarrow> user \<Rightarrow> string \<Rightarrow> (py_error + unit) \<times> user \<times> world" where
  "create_new_did env w u hdl =
     (case create_plc env hdl u of
        Inl e \<Rightarrow> (Inl e, u, w)
      | Inr did \<Rightarrow>
          (let w1 = w\<lparr>plc_ops := plc_ops w @ [did]\<rparr> in
           case did_doc_raises env did of
             Some e \<Rightarrow> (Inl e, u, w1)
           | None \<Rightarrow>
               (let w2 = (case objects w1 did of
                            None \<Rightarrow> w1\<lparr>objects := (objects w1)(did \<mapsto> did_doc_object did)\<rparr>
                          | Some d \<Rightarrow> w1)
                in case set_dns env w2 hdl did of
                     Inl e \<Rightarrow> (Inl e, u, w2)
                   | Inr w3 \<Rightarrow>
                       (case fetch_profile env w3 u of
                          Inl e \<Rightarrow> (Inl e, u, w3)
                        | Inr fetched \<Rightarrow>
                            create_repo env (snd fetched) (fst fetched) hdl did))))"

text \<open>
  The branch for a repo that is deactivated or deleted, not tombstoned: activate
  it, enqueue the commit task, install the DNS record for our own handles.
\<close>

definition reactivate ::
  "atp_env \<Rightarrow> world \<Rightarrow> user \<Rightarrow> string \<Rightarrow> string \<Rightarrow> repo
     \<Rightarrow> (py_error + unit) \<times> user \<times> world" where
  "reactivate env w u hdl copy_did r =
     (case activate_raises env copy_did of
        Some e \<Rightarrow> (Inl e, u, w)
      | None \<Rightarrow>
          (let w1 = w\<lparr>repos := (repos w)(copy_did \<mapsto> r\<lparr>repo_status := None\<rparr>),
                      queued := queued w @ [''atproto-commit'']\<rparr>
           in if endswith hdl (SUPERDOMAIN env) then
                (case set_dns env w1 hdl copy_did of
                   Inl e \<Rightarrow> (Inl e, u, w1)
                 | Inr w2 \<Rightarrow> (Inr (), u, w2))
              else (Inr (), u, w1)))"

text \<open>
  The branch for a tombstoned repo: empty the user's copies and the profile
  object's copies, store the profile object, and go on to the new-DID path.
\<close>

definition wipe_copies :: "world \<Rightarrow> user \<Rightarrow> (py_error + unit) \<times> user \<times> world" where
  "wipe_copies w u =
     (let u1 = u\<lparr>user_copies := []\<rparr> in
      case user_obj u1 of
        None \<Rightarrow> (Inr (), u1, w)
      | Some ob \<Rightarrow>
          (let ob' = ob\<lparr>copies := []\<rparr>; u2 = u1\<lparr>user_obj := Some ob'\<rparr> in
           case put_object w ob' of
             Inl e \<Rightarrow> (Inl e, u2, w)
           | Inr w' \<Rightarrow> (Inr (), u2, w')))"

definition create_for ::
  "atp_env \<Rightarrow> world \<Rightarrow> user \<Rightarrow> (py_error + unit) \<times> user \<times> world" where
  "create_for env w u =
     (if user_label u = LABEL ATProto then (Inl AssertionError, u, w)
      else (case handle_as env u of
        Inl e \<Rightarrow> (Inl e, u, w)
      | Inr hdl \<Rightarrow>
          if truthy_str (user_get_copy ATProto u) then
            (let copy_did = the (user_get_copy ATProto u) in
             case repos w copy_did of
               None \<Rightarrow> (Inl AttributeError, u, w)
             | Some r \<Rightarrow>
                 if \<not> truthy_str (repo_status r) then (Inr (), u, w)
                 else if repo_status r = Some TOMBSTONED then
                   (case wipe_copies w u of
                      (Inl e, u1, w1) \<Rightarrow> (Inl e, u1, w1)
                    | (Inr x, u1, w1) \<Rightarrow> create_new_did env w1 u1 hdl)
                 else reactivate env w u hdl copy_did r)
          else create_new_did env w u hdl))"

subsection \<open>ATProto.send\<close>






























section \<open>Predicates and test doubles for nostr.py and atproto.py\<close>



text \<open>
  A small world in the manner of the test suite: the web user \<open>user.com\<close> is
  bridged into ATProto as \<open>did:plc:alice\<close>, one of her posts has a copy in her
  repo, and every service answers.
\<close>

definition alice :: user where
  "alice =
     \<lparr>user_label = ''web'', user_id = ''user.com'',
      user_copies = [\<lparr>uri = ''did:plc:alice'', protocol = ''atproto''\<rparr>],
      user_obj = None, user_handle = Some ''user.com'',
      handle_as_domain = Some ''user.com''\<rparr>"

definition note_as1 :: "string \<Rightarrow> as1" where
  "note_as1 i = AS1 (Some ''note'') None (Some i) (Some ''note'') False None None None"


definition stored_post :: object where
  "stored_post =
     \<lparr>key_id = Some ''https://user.com/post'',
      copies = [\<lparr>uri = ''at://did:plc:alice/app.bsky.feed.post/tid0'',
                 protocol = ''atproto''\<rparr>],
      as1 = Some (note_as1 ''https://user.com/post''),
      obj_source_protocol = Some ''web''\<rparr>"



definition alice_repo :: repo where
  "alice_repo =
     \<lparr>repo_did = ''did:plc:alice'', repo_status = None,
      repo_handle = Some ''user.com.web.brid.gy''\<rparr>"

definition alice_world :: world where
  "alice_world =
     \<lparr>repos = [''did:plc:alice'' \<mapsto> alice_repo],
      objects = [''https://user.com/post'' \<mapsto> stored_post],
      users = [''user.com'' \<mapsto> alice],
      plc_ops = [''did:plc:alice''], dns = Map.empty, dns_changes = 0,
      queued = [], commits = []\<rparr>"

definition example_parse :: "string \<Rightarrow> py_error + (string \<times> string option \<times> string option)" where
  "example_parse u =
     (if u = ''at://did:plc:alice/app.bsky.feed.post/tid0''
        then Inr (''did:plc:alice'', Some ''app.bsky.feed.post'', Some ''tid0'')
      else if u = ''at://did:plc:alice/app.bsky.graph.block/b1''
        then Inr (''did:plc:alice'', Some ''app.bsky.graph.block'', Some ''b1'')
      else Inl ValueError)"

definition example_atp_env :: atp_env where
  "example_atp_env =
     \<lparr>atp_DEBUG = False, SUPERDOMAIN = ''.brid.gy'', DOMAINS = {''atproto.brid.gy''},
      PROTOCOLS = (\<lambda>p. p = Some ''web''),
      CRUD_VERBS = {''post'', ''update'', ''delete'', ''undo''},
      ACTOR_TYPES = {''person''},
      LEXICONS = [''app.bsky.feed.post'' \<mapsto> ''record''],
      handle_as = (\<lambda>u. Inr (user_id u @ ''.web.brid.gy'')),
      create_plc = (\<lambda>hdl u. Inr ''did:plc:new''),
      did_doc_raises = (\<lambda>d. None),
      reserved_handle_domain = (\<lambda>hdl. False),
      dns_api_raises = (\<lambda>hdl. None),
      reload_profile = (\<lambda>u. Inr None),
      repo_create_raises = (\<lambda>d. None),
      activate_raises = (\<lambda>d. None),
      deactivate_raises = (\<lambda>d. None),
      user_load = (\<lambda>u i. Inr None),
      convert = (\<lambda>ob u. Inr (case ob of
                   None \<Rightarrow> None
                 | Some x \<Rightarrow> Some \<lparr>lex_type = Some ''app.bsky.feed.post'', lex_body = []\<rparr>)),
      next_tid = (\<lambda>w. ''tid1''),
      commit_raises = (\<lambda>w d ws. None),
      domain_from_link = (\<lambda>url. Some (drop 8 url)),
      key_for = (\<lambda>i. Some i),
      follower_follow = (\<lambda>u i. None),
      actor_key = (\<lambda>ob allow. Some ''user.com''),
      get_or_create = (\<lambda>i allow. Inr (Some alice)),
      pds_for_did = (\<lambda>d. Inr (Some ''https://atproto.brid.gy'')),
      translate_user_id = (\<lambda>p i. Inr None),
      mod_service_raises = (\<lambda>r. None),
      chat_service = (\<lambda>m d. Inr True),
      list_block_records = (\<lambda>w d.
        Inr [(''at://did:plc:alice/app.bsky.graph.block/b1'', ''did:plc:bob'')]),
      parse_at_uri = example_parse\<rparr>"








definition example_nip05_env :: nip05_env where
  "example_nip05_env =
     \<lparr>users_of = (\<lambda>p. if p = ''web'' then
          [alice\<lparr>user_copies := [\<lparr>uri = ''nostr:npub1abc'', protocol = ''nostr''\<rparr>]\<rparr>]
          else []),
      is_enabled = (\<lambda>u p. True),
      uri_to_id = drop 6\<rparr>"

section \<open>Properties of nostr_hub.py\<close>

subsection \<open>handle\<close>

lemma enqueue_tasks:
  "enqueue env h t = Inr h' \<Longrightarrow> tasks h' \<noteq> tasks h \<Longrightarrow> tasks h' = tasks h @ [t]"
  by (auto simp: enqueue_def split: option.splits if_splits)

lemma event_ids_Some:
  "event_ids env event = Inr (Some ids) \<Longrightarrow>
     uri_for env event = Inr (fst ids)
     \<and> id_to_uri env ''npub'' (py_get event ''pubkey'') = Inr (snd ids)"
  by (auto simp: event_ids_def split: sum.splits if_splits)


text \<open>
  The relevance test never looks for the author in \<open>bridged_pubkeys\<close>: an event
  is dropped as irrelevant when its author is not a bridged Nostr user and no
  p tag names a user bridged into Nostr.
\<close>

lemma handle_irrelevant_dropped:
  "relevant h event = Inr False \<Longrightarrow> handle env h event = Inr h"
  by (simp add: handle_def)

text \<open>
  C1 (loopback suppression). The claim: an event whose pubkey is in
  \<open>bridged_pubkeys\<close> never gets a receive task, also when it carries a p tag that
  mentions a bridged pubkey. \<open>handle\<close> has no such test. Here the author
  \<open>a11ce\<close> is in \<open>bridged_pubkeys\<close>, the event mentions \<open>a11ce\<close>, the
  signature verifies, and \<open>handle\<close> enqueues a receive task for it.
\<close>

theorem handle_loopback_event_enqueued:
  "py_get loopback_event ''pubkey'' = JStr ''a11ce''
   \<and> ''a11ce'' \<in> bridged_pubkeys example_hub
   \<and> handle example_env example_hub loopback_event =
       Inr (example_hub\<lparr>tasks :=
         [\<lparr>queue = ''receive'', task_id = ''nostr:notee1'', source_protocol = ''nostr'',
           authed_as = ''nostr:npuba11ce'', nostr = loopback_event, delay = None\<rparr>]\<rparr>)"
  by (simp add: handle_def well_formed_def py_get_def loopback_event_def example_env_def
      example_hub_def relevant_def tag_mention_def in_pubkeys_def mentions_bridged_def
      event_ids_def enqueue_def receive_task_def KIND_DELETE_def)

text \<open>
  C5. Whenever \<open>handle\<close> adds a task to the queue, the event passed the
  well-formedness test (a dict with kind, pubkey, id and sig) and \<open>verify\<close>
  accepted its id and signature; exactly one task is added, it carries the event, and
  its \<open>authed_as\<close> is \<open>id_to_uri('npub', pubkey)\<close> of the event's own pubkey.
  A malformed event returns at once with the state unchanged, and an event that
  \<open>verify\<close> rejects never changes the state.
\<close>

theorem handle_enqueues_only_verified:
  "(\<forall>h'. handle env h event = Inr h' \<longrightarrow> tasks h' \<noteq> tasks h \<longrightarrow>
      well_formed event \<and> verify env event
      \<and> (\<exists>obj_id npub_uri.
            uri_for env event = Inr obj_id
            \<and> id_to_uri env ''npub'' (py_get event ''pubkey'') = Inr npub_uri
            \<and> tasks h' = tasks h @ [receive_task env event obj_id npub_uri]
            \<and> authed_as (last (tasks h')) = npub_uri
            \<and> nostr (last (tasks h')) = event))
   \<and> (\<not> well_formed event \<longrightarrow> handle env h event = Inr h)
   \<and> (\<not> verify env event \<longrightarrow> (\<forall>h'. handle env h event = Inr h' \<longrightarrow> h' = h))"
proof (intro conjI allI impI)
  fix h' assume r: "handle env h event = Inr h'" and t: "tasks h' \<noteq> tasks h"
  from r t show "well_formed event"
    by (auto simp: handle_def split: if_splits)
  from r t show "verify env event"
    by (auto simp: handle_def split: if_splits sum.splits option.splits)
  from r t obtain ids where ids: "event_ids env event = Inr (Some ids)"
    and enq: "enqueue env h (receive_task env event (fst ids) (snd ids)) = Inr h'"
    by (auto simp: handle_def split: if_splits sum.splits option.splits)
  from enqueue_tasks [OF enq t] event_ids_Some [OF ids]
  show "\<exists>obj_id npub_uri.
            uri_for env event = Inr obj_id
            \<and> id_to_uri env ''npub'' (py_get event ''pubkey'') = Inr npub_uri
            \<and> tasks h' = tasks h @ [receive_task env event obj_id npub_uri]
            \<and> authed_as (last (tasks h')) = npub_uri
            \<and> nostr (last (tasks h')) = event"
    by (auto simp: receive_task_def)
next
  assume "\<not> well_formed event" then show "handle env h event = Inr h"
    by (simp add: handle_def)
next
  fix h' assume "\<not> verify env event" "handle env h event = Inr h'"
  then show "h' = h"
    by (auto simp: handle_def split: if_splits sum.splits)
qed

lemma handle_example_event:
  "handle example_env example_hub example_event =
     Inr (example_hub\<lparr>tasks :=
       [receive_task example_env example_event ''nostr:notee0'' ''nostr:npubb0b'']\<rparr>)"
  by (simp add: handle_def well_formed_def py_get_def example_event_def example_env_def
      example_hub_def relevant_def in_pubkeys_def mentions_bridged_def
      event_ids_def enqueue_def)

theorem handle_enqueues_only_verified_witness:
  "handle example_env example_hub example_event =
     Inr (example_hub\<lparr>tasks :=
       [receive_task example_env example_event ''nostr:notee0'' ''nostr:npubb0b'']\<rparr>)
   \<and> well_formed example_event \<and> verify example_env example_event
   \<and> id_to_uri example_env ''npub'' (py_get example_event ''pubkey'') = Inr ''nostr:npubb0b''
   \<and> authed_as (receive_task example_env example_event ''nostr:notee0'' ''nostr:npubb0b'')
       = ''nostr:npubb0b''
   \<and> handle example_env example_hub (JStr ''junk'') = Inr example_hub"
proof -
  let ?h' = "example_hub\<lparr>tasks :=
       [receive_task example_env example_event ''nostr:notee0'' ''nostr:npubb0b'']\<rparr>"
  have run: "handle example_env example_hub example_event = Inr ?h'"
    by (rule handle_example_event)
  have changed: "tasks ?h' \<noteq> tasks example_hub"
    by (simp add: example_hub_def)
  have junk: "\<not> well_formed (JStr ''junk'')"
    by (simp add: well_formed_def)
  note inst = handle_enqueues_only_verified [of example_env example_hub]
  from inst [of example_event] run changed
  have "well_formed example_event \<and> verify example_env example_event"
    by blast
  moreover from inst [of "JStr ''junk''"] junk
  have "handle example_env example_hub (JStr ''junk'') = Inr example_hub"
    by blast
  moreover have "id_to_uri example_env ''npub'' (py_get example_event ''pubkey'')
      = Inr ''nostr:npubb0b''"
    by (simp add: example_env_def example_event_def py_get_def)
  ultimately show ?thesis
    using run by (simp add: receive_task_def)
qed

subsection \<open>subscribe\<close>










lemma send_req_sends:
  "send_req env s = (None, s') \<Longrightarrow>
     sent s' = sent s @ [req env (token_urlsafe env (tokens_drawn s))
       (bridged_pubkeys (hub_state s)) (nostr_pubkeys (hub_state s))]"
  by (auto simp: send_req_def ws_send_def Let_def split: option.splits)



lemma subscribe_example_closed:
  "subscribe example_env ''wss://relay'' None [RecvText ''event'', RecvText ''closed'']
       example_hub
   = (Waiting,
      \<lparr>hub_state = example_hub\<lparr>tasks :=
          [receive_task example_env example_event ''nostr:notee0'' ''nostr:npubb0b'']\<rparr>,
       sent = [req example_env ''s'' {''a11ce''} {''b0b''},
               req example_env ''ss'' {''a11ce''} {''b0b''}],
       tokens_drawn = 2, subscription = ''ss'',
       nostr_pubkeys_count = 1, bridged_pubkeys_count = 1, received = 0\<rparr>)"
proof -
  have env: "connect_raises example_env ''wss://relay'' = None"
    "send_raises example_env = (\<lambda>n. None)"
    "token_urlsafe example_env 0 = ''s''" "token_urlsafe example_env (Suc 0) = ''ss''"
    "json_loads example_env ''event'' = Inr (JList [JStr ''EVENT'', JStr ''s'', example_event])"
    "json_loads example_env ''closed'' =
       Inr (JList [JStr ''CLOSED'', JStr ''s'', JStr ''bye''])"
    by (simp_all add: example_env_def example_frames_def)
  have sets: "nostr_pubkeys example_hub = {''b0b''}" "bridged_pubkeys example_hub = {''a11ce''}"
    by (simp_all add: example_hub_def)
  show ?thesis
    by (simp add: subscribe_def connected_def send_req_def ws_send_def requery_def
        dispatch_def env sets handle_example_event limit_reached_def Let_def)
qed


lemma filters_have_no_since:
  "py_get (mention_filter env bridged) ''since'' = JNull"
  "py_get (author_filter env native) ''since'' = JNull"
  by (simp_all add: py_get_def mention_filter_def author_filter_def)

text \<open>
  C7 (CLOSED frame). The claim: after a CLOSED frame the subscriber reconnects and
  subscribes again with \<open>since\<close> set to the \<open>created_at\<close> of the last event
  received, kept in a Relay entity. In \<open>subscribe\<close> a CLOSED frame leaves the inner
  loop and the outer loop sends a new REQ on the same connection, built from the two
  pubkey sets alone. Here an event with \<open>created_at = 678\<close> arrives, then CLOSED:
  the second REQ has a new subscription id and the same two filters, and neither
  filter has a \<open>since\<close> key.
\<close>

theorem subscribe_closed_resubscribes_without_since:
  "py_get example_event ''created_at'' = JInt 678
   \<and> sent (snd (subscribe example_env ''wss://relay'' None
        [RecvText ''event'', RecvText ''closed''] example_hub))
      = [JList [JStr ''REQ'', JStr ''s'',
           mention_filter example_env {''a11ce''}, author_filter example_env {''b0b''}],
         JList [JStr ''REQ'', JStr ''ss'',
           mention_filter example_env {''a11ce''}, author_filter example_env {''b0b''}]]
   \<and> py_get (mention_filter example_env {''a11ce''}) ''since'' = JNull
   \<and> py_get (author_filter example_env {''b0b''}) ''since'' = JNull"
proof -
  have "py_get example_event ''created_at'' = JInt 678"
    by (simp add: example_event_def py_get_def)
  then show ?thesis
    by (simp add: subscribe_example_closed req_def filters_have_no_since)
qed

section \<open>Properties of nostr.py\<close>

subsection \<open>Nostr.send\<close>


lemma add_copy_new: "t \<notin> set cs \<Longrightarrow> add_copy cs t = cs @ [t]"
  by (simp add: add_copy_def)

lemma add_copy_length:
  "length (add_copy cs t) = (if t \<in> set cs then length cs else Suc (length cs))"
  by (simp add: add_copy_def)









subsection \<open>The NIP-05 endpoint\<close>

text \<open>
  C9, as stated, promises 404 in every case without a match. A request without the
  \<open>name\<close> parameter is answered 400 by \<open>get_required_param\<close>, before any
  lookup.
\<close>

theorem nip_05_missing_name_is_400:
  "nip_05 example_nip05_env \<lparr>name_param = None, for_request = Some ''web''\<rparr> = BadRequest
   \<and> nip_05 example_nip05_env \<lparr>name_param = None, for_request = Some ''web''\<rparr> \<noteq> NotFound"
  by (simp add: nip_05_def get_required_param_def)

text \<open>
  C9, amended. A request without a non-empty \<open>name\<close> parameter is answered 400.
  For a request with name \<open>X\<close>, the endpoint returns \<open>{'names': {X: pk}}\<close> if
  and only if the protocol of the request is not Nostr, the query for a user of that
  protocol whose handle, \<open>handle_as_domain\<close> or key id is \<open>X\<close> returns a
  user, that user is enabled for Nostr and has a Nostr copy, and \<open>pk\<close> is
  \<open>uri_to_id\<close> of that copy; in every other case it answers 404.
\<close>

theorem nip_05_names_iff:
  "(case get_required_param (name_param rq) of
      Inl r \<Rightarrow> nip_05 env rq = BadRequest
    | Inr name \<Rightarrow>
        (\<forall>n pk. nip_05 env rq = Names n pk \<longleftrightarrow>
           n = name \<and>
           (\<exists>p u npub.
              for_request rq = Some p \<and> p \<noteq> LABEL Nostr
              \<and> find (name_matches name) (users_of env p) = Some u
              \<and> u \<in> set (users_of env p) \<and> name_matches name u
              \<and> is_enabled env u (LABEL Nostr)
              \<and> user_get_copy Nostr u = Some npub \<and> npub \<noteq> []
              \<and> pk = uri_to_id env npub))
        \<and> ((\<forall>n pk. nip_05 env rq \<noteq> Names n pk) \<longrightarrow> nip_05 env rq = NotFound))"
proof (cases "get_required_param (name_param rq)")
  case (Inl r)
  then have "r = BadRequest"
    by (auto simp: get_required_param_def split: option.splits if_splits)
  with Inl show ?thesis by (simp add: nip_05_def)
next
  case (Inr name)
  have found: "\<And>p u. find (name_matches name) (users_of env p) = Some u \<Longrightarrow>
      u \<in> set (users_of env p) \<and> name_matches name u"
    by (auto simp: find_Some_iff)
  show ?thesis
    using Inr found unfolding nip_05_def
    by (auto split: option.splits if_splits)
qed

theorem nip_05_names_iff_witness:
  "get_required_param (name_param \<lparr>name_param = Some ''user.com'', for_request = Some ''web''\<rparr>)
     = Inr ''user.com''
   \<and> nip_05 example_nip05_env \<lparr>name_param = Some ''user.com'', for_request = Some ''web''\<rparr>
       = Names ''user.com'' ''npub1abc''
   \<and> nip_05 example_nip05_env \<lparr>name_param = Some ''user.com'', for_request = Some ''nostr''\<rparr>
       = NotFound"
proof -
  let ?web = "\<lparr>name_param = Some ''user.com'', for_request = Some ''web''\<rparr>"
  let ?nostr = "\<lparr>name_param = Some ''user.com'', for_request = Some ''nostr''\<rparr>"
  let ?u = "alice\<lparr>user_copies := [\<lparr>uri = ''nostr:npub1abc'', protocol = ''nostr''\<rparr>]\<rparr>"
  have name: "get_required_param (name_param ?web) = Inr ''user.com''"
    "get_required_param (name_param ?nostr) = Inr ''user.com''"
    by (simp_all add: get_required_param_def)
  have found: "find (name_matches ''user.com'') (users_of example_nip05_env ''web'') = Some ?u"
    "?u \<in> set (users_of example_nip05_env ''web'')" "name_matches ''user.com'' ?u"
    "is_enabled example_nip05_env ?u (LABEL Nostr)"
    "user_get_copy Nostr ?u = Some ''nostr:npub1abc''"
    "uri_to_id example_nip05_env ''nostr:npub1abc'' = ''npub1abc''"
    by (simp_all add: example_nip05_env_def name_matches_def alice_def user_get_copy_def
        get_copy_def Nostr_def)
  have web: "nip_05 example_nip05_env ?web = Names ''user.com'' ''npub1abc''"
    using nip_05_names_iff [where rq = ?web and env = example_nip05_env] name(1) found
    by (auto simp: Nostr_def)
  have no_names: "\<forall>n pk. nip_05 example_nip05_env ?nostr \<noteq> Names n pk"
    using nip_05_names_iff [where rq = ?nostr and env = example_nip05_env] name(2)
    by (auto simp: Nostr_def)
  have "nip_05 example_nip05_env ?nostr = NotFound"
    using nip_05_names_iff [where rq = ?nostr and env = example_nip05_env] name(2) no_names
    by simp
  with web name show ?thesis by simp
qed

section \<open>Properties of atproto.py\<close>

subsection \<open>What each step leaves alone\<close>

lemma commit_keeps:
  "commit env w did ws = Inr w' \<Longrightarrow>
     users w' = users w \<and> repos w' = repos w \<and> plc_ops w' = plc_ops w
     \<and> dns w' = dns w \<and> dns_changes w' = dns_changes w \<and> objects w' = objects w"
  by (auto simp: commit_def split: option.splits)

lemma put_object_keeps:
  "put_object w ob = Inr w' \<Longrightarrow>
     users w' = users w \<and> repos w' = repos w \<and> plc_ops w' = plc_ops w
     \<and> dns w' = dns w \<and> dns_changes w' = dns_changes w \<and> commits w' = commits w"
  by (auto simp: put_object_def split: sum.splits)

lemma remove_dns_keeps:
  "remove_dns env w hdl = Inr w' \<Longrightarrow>
     users w' = users w \<and> repos w' = repos w \<and> plc_ops w' = plc_ops w
     \<and> commits w' = commits w \<and> objects w' = objects w"
  by (auto simp: remove_dns_def split: option.splits if_splits)

lemma set_dns_keeps:
  "set_dns env w hdl did = Inr w' \<Longrightarrow>
     users w' = users w \<and> repos w' = repos w \<and> plc_ops w' = plc_ops w
     \<and> commits w' = commits w \<and> objects w' = objects w"
  by (auto simp: set_dns_def split: option.splits if_splits sum.splits dest!: remove_dns_keeps)

lemma pinned_post_keeps:
  "pinned_post env w u did = (r, w') \<Longrightarrow> users w' = users w \<and> repos w' = repos w"
  unfolding pinned_post_def Let_def
  by (auto split: option.splits if_splits sum.splits dest!: put_object_keeps)

lemma store_profile_keeps:
  "store_profile env w u did = (r, u', w') \<Longrightarrow>
     user_copies u' = user_copies u \<and> user_id u' = user_id u \<and> user_label u' = user_label u
     \<and> users w' = users w \<and> repos w' = repos w"
  unfolding store_profile_def Let_def
  by (auto split: option.splits if_splits sum.splits dest!: put_object_keeps commit_keeps)

text \<open>
  The stored users are as before, or the user itself has been stored anew with the
  given copies.
\<close>

lemma fetch_profile_keeps:
  "fetch_profile env w u = Inr (u', w') \<Longrightarrow>
     user_copies u' = user_copies u \<and> user_id u' = user_id u \<and> user_label u' = user_label u
     \<and> repos w' = repos w \<and> plc_ops w' = plc_ops w \<and> dns w' = dns w
     \<and> dns_changes w' = dns_changes w \<and> commits w' = commits w
     \<and> (users w' = users w \<or> users w' = (users w)(user_id u \<mapsto> u'))"
  by (auto simp: fetch_profile_def Let_def split: if_splits sum.splits option.splits)

subsection \<open>create_for\<close>


lemma create_repo_succeeds:
  "create_repo env w u hdl did = (Inr x, u', w') \<Longrightarrow>
     user_copies u' = add_copy (user_copies u) \<lparr>uri = did, protocol = ''atproto''\<rparr>
     \<and> user_label u' = user_label u
     \<and> users w' (user_id u') = Some u'
     \<and> repos w' did = Some \<lparr>repo_did = did, repo_status = None, repo_handle = Some hdl\<rparr>"
  unfolding create_repo_def Let_def add_did_copy_def
  by (auto split: option.splits sum.splits prod.splits
      dest!: pinned_post_keeps commit_keeps store_profile_keeps)


lemma create_new_did_succeeds:
  "create_new_did env w u hdl = (Inr x, u', w') \<Longrightarrow>
     \<exists>did. create_plc env hdl u = Inr did
       \<and> user_copies u' = add_copy (user_copies u) \<lparr>uri = did, protocol = ''atproto''\<rparr>
       \<and> user_label u' = user_label u
       \<and> users w' (user_id u') = Some u'
       \<and> repos w' did = Some \<lparr>repo_did = did, repo_status = None, repo_handle = Some hdl\<rparr>"
  unfolding create_new_did_def Let_def
  by (auto split: option.splits sum.splits
      dest!: set_dns_keeps fetch_profile_keeps create_repo_succeeds)

lemma wipe_copies_result:
  "wipe_copies w u = (r, u', w') \<Longrightarrow>
     user_copies u' = [] \<and> user_label u' = user_label u \<and> user_id u' = user_id u
     \<and> users w' = users w"
  unfolding wipe_copies_def Let_def
  by (auto split: option.splits sum.splits dest!: put_object_keeps)

lemma reactivate_keeps:
  "reactivate env w u hdl d r = (res, u', w') \<Longrightarrow> u' = u \<and> users w' = users w"
  unfolding reactivate_def Let_def
  by (auto split: option.splits sum.splits if_splits dest!: set_dns_keeps)

lemma reactivate_succeeds:
  "reactivate env w u hdl d r = (Inr x, u', w') \<Longrightarrow>
     repos w' d = Some (r\<lparr>repo_status := None\<rparr>)"
  unfolding reactivate_def Let_def
  by (auto split: option.splits sum.splits if_splits dest!: set_dns_keeps)

lemma create_for_active:
  assumes "user_label u \<noteq> LABEL ATProto"
    and "user_get_copy ATProto u = Some did" and "did \<noteq> []"
    and "repos w did = Some r" and "\<not> truthy_str (repo_status r)"
  shows "create_for env w u =
     (case handle_as env u of Inl e \<Rightarrow> (Inl e, u, w) | Inr hdl \<Rightarrow> (Inr (), u, w))"
  using assms unfolding create_for_def Let_def
  by (auto split: sum.splits)







text \<open>
  C4. For a user that is not an ATProto user, whose ATProto copy names a repo that
  exists and is active, \<open>create_for\<close> returns at once: the user, its copies, the
  repos, the DIDs registered at the PLC directory, the DNS records and the number
  of DNS change sets, the task queue and the commits are all as before. (Its result
  is \<open>None\<close>, or the \<open>ValueError\<close> of \<open>handle_as\<close>, which is computed
  first.)
\<close>

theorem create_for_active_is_noop:
  assumes "user_label u \<noteq> LABEL ATProto"
    and "user_get_copy ATProto u = Some did" and "did \<noteq> []"
    and "repos w did = Some r" and "\<not> truthy_str (repo_status r)"
  shows "create_for env w u =
     (case handle_as env u of Inl e \<Rightarrow> (Inl e, u, w) | Inr hdl \<Rightarrow> (Inr (), u, w))"
  using assms by (rule create_for_active)

theorem create_for_active_is_noop_witness:
  "user_label alice \<noteq> LABEL ATProto
   \<and> user_get_copy ATProto alice = Some ''did:plc:alice''
   \<and> repos alice_world ''did:plc:alice'' = Some alice_repo
   \<and> \<not> truthy_str (repo_status alice_repo)
   \<and> create_for example_atp_env alice_world alice = (Inr (), alice, alice_world)"
proof -
  have h: "user_label alice \<noteq> LABEL ATProto"
    "user_get_copy ATProto alice = Some ''did:plc:alice''" "''did:plc:alice'' \<noteq> []"
    "repos alice_world ''did:plc:alice'' = Some alice_repo"
    "\<not> truthy_str (repo_status alice_repo)"
    by (simp_all add: alice_def ATProto_def user_get_copy_def get_copy_def alice_world_def
        alice_repo_def)
  have "handle_as example_atp_env alice = Inr ''user.com.web.brid.gy''"
    by (simp add: example_atp_env_def alice_def)
  with create_for_active_is_noop [OF h, of example_atp_env] h show ?thesis
    by simp
qed

text \<open>
  Calling \<open>create_for\<close> twice: after a call that succeeded, on whatever path, a
  second call changes neither the user nor the world, provided DIDs are not empty
  strings.
\<close>

lemma get_copy_add_new:
  "get_copy ATProto cs = None \<Longrightarrow>
     get_copy ATProto (add_copy cs \<lparr>uri = d, protocol = ''atproto''\<rparr>) = Some d"
  by (auto simp: get_copy_def add_copy_def ATProto_def filter_empty_conv split: list.splits)

lemma create_for_twice:
  assumes first: "create_for env w u = (Inr (), u1, w1)"
    and plc: "\<And>hdl v. create_plc env hdl v \<noteq> Inr []"
    and copy: "user_get_copy ATProto u \<noteq> Some []"
  shows "snd (create_for env w1 u1) = (u1, w1)"
proof -
  have noop: "snd (create_for env w1 u1) = (u1, w1)"
    if "user_label u1 \<noteq> LABEL ATProto" "user_get_copy ATProto u1 = Some d" "d \<noteq> []"
      "repos w1 d = Some r" "\<not> truthy_str (repo_status r)" for d r
    using create_for_active [OF that, of env] by (auto split: sum.splits)
  have new: "snd (create_for env w1 u1) = (u1, w1)"
    if run: "create_new_did env w0 u0 hdl = (Inr (), u1, w1)"
      and label: "user_label u0 \<noteq> LABEL ATProto"
      and none: "get_copy ATProto (user_copies u0) = None" for w0 u0 hdl
  proof -
    from create_new_did_succeeds [OF run] obtain d where
      d: "create_plc env hdl u0 = Inr d"
      "user_copies u1 = add_copy (user_copies u0) \<lparr>uri = d, protocol = ''atproto''\<rparr>"
      "user_label u1 = user_label u0"
      "repos w1 d = Some \<lparr>repo_did = d, repo_status = None, repo_handle = Some hdl\<rparr>"
      by blast
    from d(1) plc have "d \<noteq> []" by auto
    moreover have "user_get_copy ATProto u1 = Some d"
      using d(2,3) label none by (simp add: user_get_copy_def get_copy_add_new)
    ultimately show ?thesis
      using noop [of d] d(3,4) label by simp
  qed
  from first have label: "user_label u \<noteq> LABEL ATProto"
    by (auto simp: create_for_def split: if_splits)
  from first obtain hdl where hdl: "handle_as env u = Inr hdl"
    by (auto simp: create_for_def split: if_splits sum.splits)
  show ?thesis
  proof (cases "user_get_copy ATProto u")
    case None
    with first label hdl have "create_new_did env w u hdl = (Inr (), u1, w1)"
      by (simp add: create_for_def)
    moreover from None label have "get_copy ATProto (user_copies u) = None"
      by (simp add: user_get_copy_def)
    ultimately show ?thesis using new label by blast
  next
    case (Some d)
    with copy have d: "d \<noteq> []" by auto
    from first label hdl Some d obtain r where r: "repos w d = Some r"
      by (auto simp: create_for_def Let_def split: option.splits)
    show ?thesis
    proof (cases "truthy_str (repo_status r)")
      case False
      with first label hdl Some d r have "u1 = u" "w1 = w"
        by (simp_all add: create_for_def Let_def)
      with noop [of d r] label Some d r False show ?thesis by simp
    next
      case True
      show ?thesis
      proof (cases "repo_status r = Some TOMBSTONED")
        case ts: True
        obtain res u0 w0 where wipe: "wipe_copies w u = (res, u0, w0)"
          by (metis prod.collapse)
        with first label hdl Some d r True ts
        have run: "create_new_did env w0 u0 hdl = (Inr (), u1, w1)"
          by (auto simp: create_for_def Let_def split: sum.splits)
        from wipe_copies_result [OF wipe] label
        have "user_label u0 \<noteq> LABEL ATProto" "get_copy ATProto (user_copies u0) = None"
          by (simp_all add: get_copy_def)
        with new [OF run] show ?thesis by blast
      next
        case False
        with first label hdl Some d r True
        have re: "reactivate env w u hdl d r = (Inr (), u1, w1)"
          by (simp add: create_for_def Let_def)
        from reactivate_keeps [OF re] reactivate_succeeds [OF re]
        have "u1 = u" "repos w1 d = Some (r\<lparr>repo_status := None\<rparr>)" by simp_all
        with noop [of d "r\<lparr>repo_status := None\<rparr>"] label Some d show ?thesis by simp
      qed
    qed
  qed
qed

subsection \<open>send: what happens before the record write\<close>










subsection \<open>send: the record write\<close>





















end
